theory Spec2Isabelle
  imports Complex_Main
begin

section \<open>The alert webhook of \<^verbatim>\<open>src/webhook/app.py\<close>\<close>

text \<open>
  The repository has one handler, \<^verbatim>\<open>alert_receiver\<close>, bound to \<^verbatim>\<open>POST /alert\<close>.
  It reads the parsed JSON body of the current request, validates that an
  \<^verbatim>\<open>"alerts"\<close> member is present, walks the alerts in order and, at the first alert
  named \<^verbatim>\<open>NginxDown\<close>, runs an Ansible playbook through \<^verbatim>\<open>os.system\<close> and returns.

  The embedding below follows the handler line by line. Python values are a datatype,
  every Python exception the handler can raise is a value of \<open>py_error\<close>, and the
  effects (lines printed, commands run) are fields of an explicit \<open>world\<close>.
\<close>

subsection \<open>Python values produced by \<^verbatim>\<open>request.get_json()\<close>\<close>

text \<open>
  \<^verbatim>\<open>get_json\<close> returns what \<^verbatim>\<open>json.loads\<close> builds: \<^verbatim>\<open>None\<close>, a bool, an int, a float,
  a str, a list or a dict with string keys. A dict is kept as the list of its items in
  insertion order (the order in which \<^verbatim>\<open>for k in d\<close> yields the keys); \<open>map_of\<close> is the
  lookup. The keys of a Python dict are distinct; nothing below relies on it. A float is
  represented by the rational number it denotes: the handler only ever asks whether it
  is zero (\<^verbatim>\<open>NaN\<close> and the infinities behave like any other nonzero float here). A
  string is its sequence of bytes. An absent body that \<^verbatim>\<open>get_json\<close> reports as \<^verbatim>\<open>None\<close>
  is \<open>PyNone\<close>.
\<close>

datatype json =
    PyNone
  | PyBool bool
  | PyInt int
  | PyFloat rat
  | PyStr string
  | PyList "json list"
  | PyDict "(string \<times> json) list"

datatype py_error = TypeError | KeyError | AttributeError

text \<open>A response is the pair \<^verbatim>\<open>(body, status)\<close> that the handler returns to Flask.\<close>

type_synonym response = "string \<times> nat"

text \<open>
  The world the handler acts on: the parsed body of the request being served, the lines
  written by \<^verbatim>\<open>print\<close>, and the command lines handed to \<^verbatim>\<open>os.system\<close>, oldest first.
\<close>

record world =
  request_json :: json
  stdout :: "string list"
  executed :: "string list"

subsection \<open>The Python operations the handler uses\<close>

text \<open>Truth value of an object, as \<^verbatim>\<open>not data\<close> tests it.\<close>

fun truthy :: "json \<Rightarrow> bool" where
  "truthy PyNone = False"
| "truthy (PyBool b) = b"
| "truthy (PyInt i) = (i \<noteq> 0)"
| "truthy (PyFloat r) = (r \<noteq> 0)"
| "truthy (PyStr s) = (s \<noteq> [])"
| "truthy (PyList xs) = (xs \<noteq> [])"
| "truthy (PyDict kvs) = (kvs \<noteq> [])"

text \<open>\<^verbatim>\<open>k in s\<close> for two strings: \<open>k\<close> occurs in \<open>s\<close> as a contiguous piece.\<close>

fun is_substring :: "string \<Rightarrow> string \<Rightarrow> bool" where
  "is_substring k [] = (k = [])"
| "is_substring k (c # s) = (take (length k) (c # s) = k \<or> is_substring k s)"

text \<open>
  \<^verbatim>\<open>k in obj\<close> for a string \<open>k\<close>: key membership for a dict, element membership for a
  list (only the string \<open>k\<close> itself compares equal to \<open>k\<close>), substring test for a str;
  \<^verbatim>\<open>None\<close>, bools and numbers are not iterable and the test raises \<^verbatim>\<open>TypeError\<close>.
\<close>

fun py_contains :: "string \<Rightarrow> json \<Rightarrow> py_error + bool" where
  "py_contains k (PyDict kvs) = Inr (k \<in> set (map fst kvs))"
| "py_contains k (PyList xs) = Inr (PyStr k \<in> set xs)"
| "py_contains k (PyStr s) = Inr (is_substring k s)"
| "py_contains k PyNone = Inl TypeError"
| "py_contains k (PyBool b) = Inl TypeError"
| "py_contains k (PyInt i) = Inl TypeError"
| "py_contains k (PyFloat r) = Inl TypeError"

text \<open>
  \<^verbatim>\<open>obj[k]\<close> for a string \<open>k\<close>: a dict gives the value or raises \<^verbatim>\<open>KeyError\<close>; a list and
  a str want integer indices, everything else is not subscriptable: \<^verbatim>\<open>TypeError\<close>.
\<close>

fun py_getitem :: "json \<Rightarrow> string \<Rightarrow> py_error + json" where
  "py_getitem (PyDict kvs) k = (case map_of kvs k of None \<Rightarrow> Inl KeyError | Some v \<Rightarrow> Inr v)"
| "py_getitem PyNone k = Inl TypeError"
| "py_getitem (PyBool b) k = Inl TypeError"
| "py_getitem (PyInt i) k = Inl TypeError"
| "py_getitem (PyFloat r) k = Inl TypeError"
| "py_getitem (PyStr s) k = Inl TypeError"
| "py_getitem (PyList xs) k = Inl TypeError"

text \<open>
  \<^verbatim>\<open>obj.get(k, default)\<close>: only a dict has the method; on any other value the attribute
  lookup raises \<^verbatim>\<open>AttributeError\<close>.
\<close>

fun py_get :: "json \<Rightarrow> string \<Rightarrow> json \<Rightarrow> py_error + json" where
  "py_get (PyDict kvs) k d = Inr (case map_of kvs k of None \<Rightarrow> d | Some v \<Rightarrow> v)"
| "py_get PyNone k d = Inl AttributeError"
| "py_get (PyBool b) k d = Inl AttributeError"
| "py_get (PyInt i) k d = Inl AttributeError"
| "py_get (PyFloat r) k d = Inl AttributeError"
| "py_get (PyStr s) k d = Inl AttributeError"
| "py_get (PyList xs) k d = Inl AttributeError"

text \<open>
  The items a \<^verbatim>\<open>for\<close> loop draws from an object: the elements of a list, the keys of a
  dict, the one-character strings of a str; anything else raises \<^verbatim>\<open>TypeError\<close>.
\<close>

fun py_iter :: "json \<Rightarrow> py_error + json list" where
  "py_iter (PyList xs) = Inr xs"
| "py_iter (PyDict kvs) = Inr (map (\<lambda>kv. PyStr (fst kv)) kvs)"
| "py_iter (PyStr s) = Inr (map (\<lambda>c. PyStr [c]) s)"
| "py_iter PyNone = Inl TypeError"
| "py_iter (PyBool b) = Inl TypeError"
| "py_iter (PyInt i) = Inl TypeError"
| "py_iter (PyFloat r) = Inl TypeError"

definition py_print :: "string \<Rightarrow> world \<Rightarrow> world" where
  "py_print line w = w\<lparr>stdout := stdout w @ [line]\<rparr>"

text \<open>
  \<^verbatim>\<open>os.system(cmd)\<close> runs \<open>cmd\<close> in a subshell and returns its exit status. What the
  command exits with is decided outside the program: \<open>sys\<close> gives the status of each
  command line. The call is recorded in \<open>executed\<close>.
\<close>

definition os_system :: "(string \<Rightarrow> int) \<Rightarrow> string \<Rightarrow> world \<Rightarrow> int \<times> world" where
  "os_system sys cmd w = (sys cmd, w\<lparr>executed := executed w @ [cmd]\<rparr>)"

subsection \<open>The handler\<close>

text \<open>Line 16: \<^verbatim>\<open>alertname = alert["labels"].get("alertname", "")\<close>.\<close>

definition alertname_of :: "json \<Rightarrow> py_error + json" where
  "alertname_of alert =
     (case py_getitem alert ''labels'' of
        Inl e \<Rightarrow> Inl e
      | Inr labels \<Rightarrow> py_get labels ''alertname'' (PyStr ''''))"

definition playbook_cmd :: string where
  "playbook_cmd = ''ansible-playbook ../ansible/playbook.yml''"

text \<open>
  Lines 15 to 25: the loop over the alerts, with the fall-through \<^verbatim>\<open>return\<close> after it.
  An exception leaves the loop at once; so does the \<^verbatim>\<open>return\<close> in the matching branch.
  The value of \<^verbatim>\<open>os.system\<close> is not bound to anything.
\<close>

fun scan_alerts :: "(string \<Rightarrow> int) \<Rightarrow> json list \<Rightarrow> world \<Rightarrow> (py_error + response) \<times> world" where
  "scan_alerts sys [] w = (Inr (''No matching alert found'', 200), w)"
| "scan_alerts sys (alert # rest) w =
     (case alertname_of alert of
        Inl e \<Rightarrow> (Inl e, w)
      | Inr alertname \<Rightarrow>
          if alertname = PyStr ''NginxDown'' then
            (let w1 = py_print ''Alert received: NGINX is down! Attempting restart...'' w;
                 (status, w2) = os_system sys playbook_cmd w1
             in (Inr (''Recovery triggered'', 200), w2))
          else scan_alerts sys rest w)"

text \<open>Lines 7 to 25. \<open>Inl e\<close> is the exception \<open>e\<close> leaving the handler uncaught.\<close>

definition alert_receiver :: "(string \<Rightarrow> int) \<Rightarrow> world \<Rightarrow> (py_error + response) \<times> world" where
  "alert_receiver sys w =
     (let data = request_json w;
          w1 = py_print ''Webhook received!'' w
      in if \<not> truthy data then (Inr (''Invalid alert'', 400), w1)
         else (case py_contains ''alerts'' data of
                 Inl e \<Rightarrow> (Inl e, w1)
               | Inr present \<Rightarrow>
                   if \<not> present then (Inr (''Invalid alert'', 400), w1)
                   else (case py_getitem data ''alerts'' of
                           Inl e \<Rightarrow> (Inl e, w1)
                         | Inr alerts \<Rightarrow>
                             (case py_iter alerts of
                                Inl e \<Rightarrow> (Inl e, w1)
                              | Inr items \<Rightarrow> scan_alerts sys items w1))))"

subsection \<open>Vocabulary of the specification\<close>

text \<open>
  The remediation rule table of the source has one entry: the handler compares the
  alertname with \<^verbatim>\<open>"NginxDown"\<close>. An alert matches when line 16 yields that string.
\<close>

definition matches :: "json \<Rightarrow> bool" where
  "matches alert = (alertname_of alert = Inr (PyStr ''NginxDown''))"

text \<open>A well-formed alert entry: an object whose \<^verbatim>\<open>"labels"\<close> member is an object.\<close>

fun wf_alert :: "json \<Rightarrow> bool" where
  "wf_alert (PyDict kvs) = (case map_of kvs ''labels'' of Some (PyDict ls) \<Rightarrow> True | _ \<Rightarrow> False)"
| "wf_alert _ = False"

text \<open>An alert entry that is not a mapping, or is one without a \<^verbatim>\<open>"labels"\<close> key.\<close>

fun lacks_labels :: "json \<Rightarrow> bool" where
  "lacks_labels (PyDict kvs) = (map_of kvs ''labels'' = None)"
| "lacks_labels _ = True"

text \<open>
  A body without an \<^verbatim>\<open>"alerts"\<close> field: an object that has no such key, or a value that
  is no object and so has no fields at all.
\<close>

fun lacks_alerts :: "json \<Rightarrow> bool" where
  "lacks_alerts (PyDict kvs) = (map_of kvs ''alerts'' = None)"
| "lacks_alerts _ = True"

text \<open>Position of the first matching alert (the length of the list when there is none).\<close>

definition first_match :: "json list \<Rightarrow> nat" where
  "first_match xs = length (takeWhile (\<lambda>a. \<not> matches a) xs)"

text \<open>
  The world after the handler's opening \<^verbatim>\<open>print\<close>, and after a triggered recovery: the
  two printed lines and one playbook run appended to what was there.
\<close>

definition received :: "world \<Rightarrow> world" where
  "received w = w\<lparr>stdout := stdout w @ [''Webhook received!'']\<rparr>"

definition recovered :: "world \<Rightarrow> world" where
  "recovered w =
     w\<lparr>stdout := stdout w @ [''Webhook received!'',
                              ''Alert received: NGINX is down! Attempting restart...''],
       executed := executed w @ [playbook_cmd]\<rparr>"

subsection \<open>Concrete requests and environments\<close>

text \<open>An environment in which every external command exits with status \<open>n\<close>.\<close>

definition exit_with :: "int \<Rightarrow> string \<Rightarrow> int" where
  "exit_with n cmd = n"

text \<open>A fresh world serving a request with body \<open>d\<close>.\<close>

definition incoming :: "json \<Rightarrow> world" where
  "incoming d = \<lparr>request_json = d, stdout = [], executed = []\<rparr>"

text \<open>\<^verbatim>\<open>{"labels": {"alertname": n}}\<close> and \<^verbatim>\<open>{"alerts": [...]}\<close>.\<close>

definition alert_named :: "string \<Rightarrow> json" where
  "alert_named n = PyDict [(''labels'', PyDict [(''alertname'', PyStr n)])]"

definition batch_of :: "json list \<Rightarrow> json" where
  "batch_of xs = PyDict [(''alerts'', PyList xs)]"

section \<open>Properties of the loop and of the handler\<close>

subsection \<open>One alert, and one turn of the loop\<close>

text \<open>Line 16 yields an alertname exactly for the well-formed alerts.\<close>

lemma wf_alert_iff: "wf_alert a \<longleftrightarrow> (\<exists>n. alertname_of a = Inr n)"
  by (cases a) (auto simp: alertname_of_def split: option.splits json.splits)

lemma lacks_labels_raises:
  "lacks_labels a \<Longrightarrow> alertname_of a = Inl (case a of PyDict kvs \<Rightarrow> KeyError | _ \<Rightarrow> TypeError)"
  by (cases a) (simp_all add: alertname_of_def)

lemma scan_alerts_match:
  "matches a \<Longrightarrow> scan_alerts sys (a # rest) w =
     (Inr (''Recovery triggered'', 200),
      w\<lparr>stdout := stdout w @ [''Alert received: NGINX is down! Attempting restart...''],
        executed := executed w @ [playbook_cmd]\<rparr>)"
  by (simp add: matches_def py_print_def os_system_def)

lemma scan_alerts_pass:
  "wf_alert a \<Longrightarrow> \<not> matches a \<Longrightarrow> scan_alerts sys (a # rest) w = scan_alerts sys rest w"
  by (auto simp: wf_alert_iff matches_def)

lemma scan_alerts_skip:
  "\<forall>p\<in>set pre. wf_alert p \<and> \<not> matches p \<Longrightarrow> scan_alerts sys (pre @ rest) w = scan_alerts sys rest w"
  by (induction pre) (simp_all add: scan_alerts_pass del: scan_alerts.simps)

subsection \<open>What the loop can touch\<close>

lemma scan_alerts_executed:
  "executed (snd (scan_alerts sys xs w)) = executed w \<or>
   executed (snd (scan_alerts sys xs w)) = executed w @ [playbook_cmd]"
  by (induction xs) (auto simp: py_print_def os_system_def split: sum.splits)

lemma scan_alerts_request:
  "request_json (snd (scan_alerts sys xs w)) = request_json w"
  by (induction xs) (auto simp: py_print_def os_system_def split: sum.splits)

lemma scan_alerts_sys: "scan_alerts sys xs w = scan_alerts sys' xs w"
  by (induction xs) (auto simp: py_print_def os_system_def split: sum.splits)

subsection \<open>The handler on an object body with an alerts list\<close>

lemma alert_receiver_batch:
  assumes "request_json w = PyDict kvs" and "map_of kvs ''alerts'' = Some (PyList xs)"
  shows "alert_receiver sys w = scan_alerts sys xs (py_print ''Webhook received!'' w)"
proof -
  from assms(2) have "(''alerts'', PyList xs) \<in> set kvs" by (rule map_of_SomeD)
  then have "kvs \<noteq> []" and "''alerts'' \<in> fst ` set kvs" by force+
  with assms show ?thesis by (simp add: alert_receiver_def)
qed

text \<open>The three ways a call can end: rejected, raised before the loop, or in the loop.\<close>

lemma alert_receiver_cases:
  "alert_receiver sys w = (Inr (''Invalid alert'', 400), py_print ''Webhook received!'' w) \<or>
   (\<exists>e. alert_receiver sys w = (Inl e, py_print ''Webhook received!'' w)) \<or>
   (\<exists>xs. alert_receiver sys w = scan_alerts sys xs (py_print ''Webhook received!'' w))"
  by (simp add: alert_receiver_def Let_def split: sum.splits) blast

lemma alert_receiver_executed:
  "executed (snd (alert_receiver sys w)) = executed w \<or>
   executed (snd (alert_receiver sys w)) = executed w @ [playbook_cmd]"
proof -
  have p: "executed (py_print ''Webhook received!'' w) = executed w"
    by (simp add: py_print_def)
  from alert_receiver_cases [of sys w] show ?thesis
  proof (elim disjE exE)
    fix xs
    assume "alert_receiver sys w = scan_alerts sys xs (py_print ''Webhook received!'' w)"
    with scan_alerts_executed [of sys xs "py_print ''Webhook received!'' w"] p
    show ?thesis by simp
  qed (simp_all add: p)
qed

lemma alert_receiver_request:
  "request_json (snd (alert_receiver sys w)) = request_json w"
proof -
  have p: "request_json (py_print ''Webhook received!'' w) = request_json w"
    by (simp add: py_print_def)
  from alert_receiver_cases [of sys w] show ?thesis
  proof (elim disjE exE)
    fix xs
    assume "alert_receiver sys w = scan_alerts sys xs (py_print ''Webhook received!'' w)"
    with scan_alerts_request [of sys xs "py_print ''Webhook received!'' w"] p
    show ?thesis by simp
  qed (simp_all add: p)
qed

lemma alert_receiver_sys: "alert_receiver sys w = alert_receiver sys' w"
  by (simp add: alert_receiver_def Let_def scan_alerts_sys [of sys _ _ sys'] split: sum.splits)

lemma py_print_received: "py_print ''Webhook received!'' w = received w"
  by (simp add: py_print_def received_def)

lemma scan_alerts_match_received:
  "matches a \<Longrightarrow> scan_alerts sys (a # rest) (received w) = (Inr (''Recovery triggered'', 200), recovered w)"
  by (simp add: scan_alerts_match received_def recovered_def del: scan_alerts.simps)

lemma alert_receiver_first_match:
  assumes "request_json w = PyDict kvs"
    and "map_of kvs ''alerts'' = Some (PyList (pre @ a # post))"
    and "\<forall>p\<in>set pre. wf_alert p \<and> \<not> matches p"
    and "matches a"
  shows "alert_receiver sys w = (Inr (''Recovery triggered'', 200), recovered w)"
  using assms
  by (simp add: alert_receiver_batch py_print_received scan_alerts_skip
      scan_alerts_match_received del: scan_alerts.simps)

lemma alert_receiver_no_match:
  assumes "request_json w = PyDict kvs"
    and "map_of kvs ''alerts'' = Some (PyList xs)"
    and "\<forall>a\<in>set xs. wf_alert a \<and> \<not> matches a"
  shows "alert_receiver sys w = (Inr (''No matching alert found'', 200), received w)"
  using assms scan_alerts_skip [where pre = xs and rest = "[]" and sys = sys and w = "received w"]
  by (simp add: alert_receiver_batch py_print_received)

subsection \<open>The first matching position\<close>

lemma first_match_split:
  assumes "\<exists>a\<in>set xs. matches a"
  shows "first_match xs < length xs"
    and "matches (xs ! first_match xs)"
    and "\<forall>p\<in>set (take (first_match xs) xs). \<not> matches p"
proof -
  let ?P = "\<lambda>a. \<not> matches a"
  have tk: "takeWhile ?P xs = take (first_match xs) xs"
    unfolding first_match_def by (rule takeWhile_eq_take)
  have ne: "takeWhile ?P xs \<noteq> xs"
    using assms by (simp add: takeWhile_eq_all_conv)
  have le: "first_match xs \<le> length xs"
    unfolding first_match_def by (rule length_takeWhile_le)
  show lt: "first_match xs < length xs"
  proof (rule ccontr)
    assume "\<not> first_match xs < length xs"
    with le have "first_match xs = length xs" by simp
    with tk have "takeWhile ?P xs = xs" by simp
    with ne show False by contradiction
  qed
  from lt have "\<not> ?P (xs ! length (takeWhile ?P xs))"
    unfolding first_match_def by (rule nth_length_takeWhile)
  then show "matches (xs ! first_match xs)"
    by (simp add: first_match_def)
  show "\<forall>p\<in>set (take (first_match xs) xs). \<not> matches p"
  proof
    fix p assume "p \<in> set (take (first_match xs) xs)"
    then have "p \<in> set (takeWhile ?P xs)" by (simp only: tk)
    then show "\<not> matches p" by (rule set_takeWhileD [THEN conjunct2])
  qed
qed

lemma filter_matches_nonempty:
  assumes "2 \<le> length (filter matches xs)"
  shows "\<exists>a\<in>set xs. matches a"
proof (rule ccontr)
  assume "\<not> (\<exists>a\<in>set xs. matches a)"
  then have "filter matches xs = []" by (simp add: filter_empty_conv)
  with assms show False by simp
qed

text \<open>Where the guard of line 11 answers 400: falsy bodies, and objects without the key.\<close>

lemma guard_rejects:
  assumes "\<not> truthy (request_json w)
         \<or> (\<exists>kvs. request_json w = PyDict kvs \<and> map_of kvs ''alerts'' = None)"
  shows "alert_receiver sys w = (Inr (''Invalid alert'', 400), received w)"
  using assms
  by (auto simp: alert_receiver_def Let_def py_print_received map_of_eq_None_iff)

text \<open>A raising entry with no match before it: the loop ends in an exception.\<close>

lemma scan_alerts_raises:
  assumes "\<forall>p\<in>set pre. \<not> matches p" and "alertname_of bad = Inl e0"
  shows "\<exists>e. scan_alerts sys (pre @ bad # post) w = (Inl e, w)"
  using assms
proof (induction pre)
  case Nil
  then show ?case by simp
next
  case (Cons p pre)
  then have ih: "\<exists>e. scan_alerts sys (pre @ bad # post) w = (Inl e, w)" by simp
  from Cons.prems(1) have nm: "alertname_of p \<noteq> Inr (PyStr ''NginxDown'')"
    by (simp add: matches_def)
  show ?case
  proof (cases "alertname_of p")
    case (Inl e)
    then show ?thesis by simp
  next
    case (Inr n)
    with nm have "n \<noteq> PyStr ''NginxDown''" by simp
    with Inr ih show ?thesis by simp
  qed
qed

section \<open>The claims\<close>

text \<open>
  C1. For every well-formed batch with two or more alerts named \<^verbatim>\<open>NginxDown\<close>, the alert
  at the first matching position \<open>first_match xs\<close> triggers the one and only playbook run
  and the handler returns \<^verbatim>\<open>Recovery triggered\<close> there. The alerts before that position
  trigger nothing on their own, and every batch that agrees with this one up to and
  including that position has the same response and effects, whatever follows: the later
  alerts are not inspected.
\<close>

theorem first_match_wins:
  assumes "request_json w = PyDict kvs"
    and "map_of kvs ''alerts'' = Some (PyList xs)"
    and "\<forall>a\<in>set xs. wf_alert a"
    and "2 \<le> length (filter matches xs)"
  shows "first_match xs < length xs \<and> matches (xs ! first_match xs)
       \<and> alert_receiver sys w = (Inr (''Recovery triggered'', 200), recovered w)
       \<and> executed (snd (alert_receiver sys w)) = executed w @ [playbook_cmd]
       \<and> (\<forall>kvs'. map_of kvs' ''alerts'' = Some (PyList (take (first_match xs) xs)) \<longrightarrow>
            alert_receiver sys (w\<lparr>request_json := PyDict kvs'\<rparr>) =
              (Inr (''No matching alert found'', 200), received (w\<lparr>request_json := PyDict kvs'\<rparr>)))
       \<and> (\<forall>kvs' xs'. map_of kvs' ''alerts'' = Some (PyList xs') \<and>
              take (Suc (first_match xs)) xs' = take (Suc (first_match xs)) xs \<longrightarrow>
            alert_receiver sys (w\<lparr>request_json := PyDict kvs'\<rparr>) =
              (Inr (''Recovery triggered'', 200), recovered (w\<lparr>request_json := PyDict kvs'\<rparr>)))"
proof -
  let ?i = "first_match xs"
  from assms(4) have ex: "\<exists>a\<in>set xs. matches a" by (rule filter_matches_nonempty)
  note lt = first_match_split(1) [OF ex] and hit = first_match_split(2) [OF ex]
    and before = first_match_split(3) [OF ex]
  have pre: "\<forall>p\<in>set (take ?i xs). wf_alert p \<and> \<not> matches p"
    using before assms(3) by (auto dest: in_set_takeD)
  have later: "alert_receiver sys (w\<lparr>request_json := PyDict kvs'\<rparr>) =
      (Inr (''Recovery triggered'', 200), recovered (w\<lparr>request_json := PyDict kvs'\<rparr>))"
    if m: "map_of kvs' ''alerts'' = Some (PyList xs')"
      and t: "take (Suc ?i) xs' = take (Suc ?i) xs" for kvs' xs'
  proof -
    have "xs' = take (Suc ?i) xs' @ drop (Suc ?i) xs'" by simp
    also have "\<dots> = take ?i xs @ xs ! ?i # drop (Suc ?i) xs'"
      using lt by (simp add: t take_Suc_conv_app_nth)
    finally have "map_of kvs' ''alerts'' = Some (PyList (take ?i xs @ xs ! ?i # drop (Suc ?i) xs'))"
      using m by simp
    then show ?thesis
      using pre hit by (intro alert_receiver_first_match [where kvs = kvs']) simp_all
  qed
  have same: "alert_receiver sys w = (Inr (''Recovery triggered'', 200), recovered w)"
    using later [of kvs xs] assms(1,2) by (cases w) simp
  have earlier: "alert_receiver sys (w\<lparr>request_json := PyDict kvs'\<rparr>) =
      (Inr (''No matching alert found'', 200), received (w\<lparr>request_json := PyDict kvs'\<rparr>))"
    if "map_of kvs' ''alerts'' = Some (PyList (take ?i xs))" for kvs'
    using that pre by (intro alert_receiver_no_match [where kvs = kvs']) simp_all
  have once: "executed (snd (alert_receiver sys w)) = executed w @ [playbook_cmd]"
    by (simp add: same recovered_def)
  from lt hit same once earlier later show ?thesis by blast
qed

theorem first_match_wins_witness:
  "request_json (incoming (batch_of [alert_named ''DiskFull'', alert_named ''NginxDown'', alert_named ''NginxDown''])) =
     PyDict [(''alerts'', PyList [alert_named ''DiskFull'', alert_named ''NginxDown'', alert_named ''NginxDown''])]
   \<and> map_of [(''alerts'', PyList [alert_named ''DiskFull'', alert_named ''NginxDown'', alert_named ''NginxDown''])]
         ''alerts'' =
       Some (PyList [alert_named ''DiskFull'', alert_named ''NginxDown'', alert_named ''NginxDown''])
   \<and> wf_alert (alert_named ''DiskFull'') \<and> wf_alert (alert_named ''NginxDown'')
   \<and> length (filter matches [alert_named ''DiskFull'', alert_named ''NginxDown'', alert_named ''NginxDown'']) = 2
   \<and> first_match [alert_named ''DiskFull'', alert_named ''NginxDown'', alert_named ''NginxDown''] = 1
   \<and> alert_receiver (exit_with 0)
         (incoming (batch_of [alert_named ''DiskFull'', alert_named ''NginxDown'', alert_named ''NginxDown''])) =
       (Inr (''Recovery triggered'', 200),
        recovered (incoming (batch_of [alert_named ''DiskFull'', alert_named ''NginxDown'', alert_named ''NginxDown''])))
   \<and> executed (snd (alert_receiver (exit_with 0)
         (incoming (batch_of [alert_named ''DiskFull'', alert_named ''NginxDown'', alert_named ''NginxDown''])))) =
       [playbook_cmd]
   \<and> alert_receiver (exit_with 0) (incoming (batch_of [alert_named ''DiskFull''])) =
       (Inr (''No matching alert found'', 200), received (incoming (batch_of [alert_named ''DiskFull''])))
   \<and> alert_receiver (exit_with 0) (incoming (batch_of [alert_named ''DiskFull'', alert_named ''NginxDown'', PyInt 7])) =
       (Inr (''Recovery triggered'', 200),
        recovered (incoming (batch_of [alert_named ''DiskFull'', alert_named ''NginxDown'', PyInt 7])))"
proof -
  let ?xs = "[alert_named ''DiskFull'', alert_named ''NginxDown'', alert_named ''NginxDown'']"
  let ?w = "incoming (batch_of ?xs)"
  have h1: "request_json ?w = PyDict [(''alerts'', PyList ?xs)]"
    by (simp add: incoming_def batch_of_def)
  have h2: "map_of [(''alerts'', PyList ?xs)] ''alerts'' = Some (PyList ?xs)"
    by simp
  have h3: "\<forall>a\<in>set ?xs. wf_alert a"
    by (simp add: alert_named_def)
  have n: "length (filter matches ?xs) = 2"
    by (simp add: alert_named_def matches_def alertname_of_def)
  then have h4: "2 \<le> length (filter matches ?xs)"
    by simp
  have i: "first_match ?xs = 1"
    by (simp add: first_match_def alert_named_def matches_def alertname_of_def)
  have e: "executed ?w = []"
    by (simp add: incoming_def)
  have u: "(incoming d0)\<lparr>request_json := d\<rparr> = incoming d" for d0 d
    by (simp add: incoming_def)
  note main = first_match_wins [OF h1 h2 h3 h4, of "exit_with 0"]
  from main have c1: "alert_receiver (exit_with 0) ?w = (Inr (''Recovery triggered'', 200), recovered ?w)"
    by blast
  from main have "executed (snd (alert_receiver (exit_with 0) ?w)) = executed ?w @ [playbook_cmd]"
    by blast
  with e have c2: "executed (snd (alert_receiver (exit_with 0) ?w)) = [playbook_cmd]"
    by simp
  from main have "\<forall>kvs'. map_of kvs' ''alerts'' = Some (PyList (take (first_match ?xs) ?xs)) \<longrightarrow>
      alert_receiver (exit_with 0) (?w\<lparr>request_json := PyDict kvs'\<rparr>) =
        (Inr (''No matching alert found'', 200), received (?w\<lparr>request_json := PyDict kvs'\<rparr>))"
    by blast
  from this [rule_format, of "[(''alerts'', PyList [alert_named ''DiskFull''])]"]
  have c3: "alert_receiver (exit_with 0) (incoming (batch_of [alert_named ''DiskFull''])) =
      (Inr (''No matching alert found'', 200), received (incoming (batch_of [alert_named ''DiskFull''])))"
    by (simp add: i u batch_of_def)
  from main have "\<forall>kvs' xs'. map_of kvs' ''alerts'' = Some (PyList xs') \<and>
        take (Suc (first_match ?xs)) xs' = take (Suc (first_match ?xs)) ?xs \<longrightarrow>
      alert_receiver (exit_with 0) (?w\<lparr>request_json := PyDict kvs'\<rparr>) =
        (Inr (''Recovery triggered'', 200), recovered (?w\<lparr>request_json := PyDict kvs'\<rparr>))"
    by blast
  from this [rule_format, of "[(''alerts'', PyList [alert_named ''DiskFull'', alert_named ''NginxDown'', PyInt 7])]"
      "[alert_named ''DiskFull'', alert_named ''NginxDown'', PyInt 7]"]
  have c4: "alert_receiver (exit_with 0)
        (incoming (batch_of [alert_named ''DiskFull'', alert_named ''NginxDown'', PyInt 7])) =
      (Inr (''Recovery triggered'', 200),
       recovered (incoming (batch_of [alert_named ''DiskFull'', alert_named ''NginxDown'', PyInt 7])))"
    by (simp add: i u batch_of_def)
  from h3 have h3': "wf_alert (alert_named ''DiskFull'') \<and> wf_alert (alert_named ''NginxDown'')"
    by simp
  from h1 h2 h3' n i c1 c2 c3 c4 show ?thesis by blast
qed

text \<open>
  C2. The guard on line 11 is there to answer every body without an \<^verbatim>\<open>"alerts"\<close> field
  with status 400 and body \<^verbatim>\<open>Invalid alert\<close>, and it does so for \<^verbatim>\<open>0\<close>, \<^verbatim>\<open>false\<close>,
  \<^verbatim>\<open>[1]\<close>, \<^verbatim>\<open>"x"\<close> and \<^verbatim>\<open>{}\<close>. The handler misses the bodies that are no objects and
  are not empty: on \<^verbatim>\<open>5\<close> and \<^verbatim>\<open>true\<close> the membership test of the guard itself raises
  \<^verbatim>\<open>TypeError\<close>, and \<^verbatim>\<open>["alerts"]\<close> and \<^verbatim>\<open>"alerts"\<close> pass the guard and raise at
  \<^verbatim>\<open>data["alerts"]\<close>. None of these has an \<^verbatim>\<open>"alerts"\<close> field, and none gets a response.
\<close>

theorem non_object_body_raises:
  "lacks_alerts (PyInt 5)
   \<and> alert_receiver (exit_with 0) (incoming (PyInt 5)) = (Inl TypeError, received (incoming (PyInt 5)))
   \<and> fst (alert_receiver (exit_with 0) (incoming (PyInt 5))) \<noteq> Inr (''Invalid alert'', 400)
   \<and> lacks_alerts (PyBool True)
   \<and> fst (alert_receiver (exit_with 0) (incoming (PyBool True))) = Inl TypeError
   \<and> lacks_alerts (PyList [PyStr ''alerts''])
   \<and> fst (alert_receiver (exit_with 0) (incoming (PyList [PyStr ''alerts'']))) = Inl TypeError
   \<and> lacks_alerts (PyStr ''alerts'')
   \<and> fst (alert_receiver (exit_with 0) (incoming (PyStr ''alerts''))) = Inl TypeError
   \<and> fst (alert_receiver (exit_with 0) (incoming (PyInt 0))) = Inr (''Invalid alert'', 400)
   \<and> fst (alert_receiver (exit_with 0) (incoming (PyBool False))) = Inr (''Invalid alert'', 400)
   \<and> fst (alert_receiver (exit_with 0) (incoming (PyList [PyInt 1]))) = Inr (''Invalid alert'', 400)
   \<and> fst (alert_receiver (exit_with 0) (incoming (PyStr ''x''))) = Inr (''Invalid alert'', 400)
   \<and> fst (alert_receiver (exit_with 0) (incoming (PyDict []))) = Inr (''Invalid alert'', 400)"
  by (simp add: alert_receiver_def incoming_def py_print_def received_def)

text \<open>
  C3. For every well-formed batch (an object whose \<^verbatim>\<open>"alerts"\<close> is a list of well-formed
  alerts) in which no alert is named \<^verbatim>\<open>NginxDown\<close>, the handler returns status 200 with
  body \<^verbatim>\<open>No matching alert found\<close>; its only effect is the opening line it prints, and
  no command is run.
\<close>

theorem no_match_no_remediation:
  assumes "request_json w = PyDict kvs"
    and "map_of kvs ''alerts'' = Some (PyList xs)"
    and "\<forall>a\<in>set xs. wf_alert a"
    and "\<forall>a\<in>set xs. \<not> matches a"
  shows "alert_receiver sys w = (Inr (''No matching alert found'', 200), received w)
       \<and> executed (snd (alert_receiver sys w)) = executed w"
proof -
  from assms(3,4) have "\<forall>a\<in>set xs. wf_alert a \<and> \<not> matches a" by blast
  with assms(1,2) have "alert_receiver sys w = (Inr (''No matching alert found'', 200), received w)"
    by (rule alert_receiver_no_match)
  then show ?thesis by (simp add: received_def)
qed

theorem no_match_no_remediation_witness:
  "request_json (incoming (batch_of [alert_named ''DiskFull'', alert_named ''HighLoad''])) =
     PyDict [(''alerts'', PyList [alert_named ''DiskFull'', alert_named ''HighLoad''])]
   \<and> map_of [(''alerts'', PyList [alert_named ''DiskFull'', alert_named ''HighLoad''])] ''alerts'' =
       Some (PyList [alert_named ''DiskFull'', alert_named ''HighLoad''])
   \<and> wf_alert (alert_named ''DiskFull'') \<and> wf_alert (alert_named ''HighLoad'')
   \<and> \<not> matches (alert_named ''DiskFull'') \<and> \<not> matches (alert_named ''HighLoad'')
   \<and> alert_receiver (exit_with 0) (incoming (batch_of [alert_named ''DiskFull'', alert_named ''HighLoad''])) =
       (Inr (''No matching alert found'', 200),
        received (incoming (batch_of [alert_named ''DiskFull'', alert_named ''HighLoad''])))
   \<and> executed (snd (alert_receiver (exit_with 0)
         (incoming (batch_of [alert_named ''DiskFull'', alert_named ''HighLoad''])))) =
       executed (incoming (batch_of [alert_named ''DiskFull'', alert_named ''HighLoad'']))"
proof -
  let ?xs = "[alert_named ''DiskFull'', alert_named ''HighLoad'']"
  have h1: "request_json (incoming (batch_of ?xs)) = PyDict [(''alerts'', PyList ?xs)]"
    by (simp add: incoming_def batch_of_def)
  have h2: "map_of [(''alerts'', PyList ?xs)] ''alerts'' = Some (PyList ?xs)"
    by simp
  have h3: "\<forall>a\<in>set ?xs. wf_alert a"
    by (simp add: alert_named_def)
  have h4: "\<forall>a\<in>set ?xs. \<not> matches a"
    by (simp add: alert_named_def matches_def alertname_of_def)
  from h3 h4 have h5: "wf_alert (alert_named ''DiskFull'') \<and> wf_alert (alert_named ''HighLoad'')
      \<and> \<not> matches (alert_named ''DiskFull'') \<and> \<not> matches (alert_named ''HighLoad'')"
    by simp
  from no_match_no_remediation [OF h1 h2 h3 h4, of "exit_with 0"] h1 h2 h5
  show ?thesis by blast
qed

text \<open>
  C4. For every request body, valid or not, and also when the handler raises, one call of
  the handler adds nothing or exactly one command to the log of commands run.
\<close>

theorem at_most_one_invocation:
  "executed (snd (alert_receiver sys w)) = executed w \<or>
   executed (snd (alert_receiver sys w)) = executed w @ [playbook_cmd]"
  by (rule alert_receiver_executed)

text \<open>
  C5, as stated: when the playbook exits with a nonzero status the response reflects the
  failure. With every command exiting with status 1, the response to scenario 1 is still
  \<^verbatim>\<open>Recovery triggered\<close> with status 200, and the whole outcome is the one obtained when
  the command exits with 0.
\<close>

theorem failed_playbook_counterexample:
  "exit_with 1 playbook_cmd \<noteq> 0
   \<and> fst (alert_receiver (exit_with 1) (incoming (batch_of [alert_named ''NginxDown'']))) =
       Inr (''Recovery triggered'', 200)
   \<and> alert_receiver (exit_with 1) (incoming (batch_of [alert_named ''NginxDown''])) =
       alert_receiver (exit_with 0) (incoming (batch_of [alert_named ''NginxDown'']))"
  by (simp add: alert_receiver_def incoming_def batch_of_def alert_named_def alertname_of_def
      py_print_def os_system_def exit_with_def)

text \<open>
  C5, amended. The handler discards the value of \<^verbatim>\<open>os.system\<close>: for every request, its
  response and its effects are the same whatever the external command exits with, namely
  those obtained when the command succeeds.
\<close>

theorem exit_status_discarded:
  "alert_receiver sys w = alert_receiver (exit_with 0) w"
  by (rule alert_receiver_sys)

text \<open>
  C6 (scenario 1). For the batch \<^verbatim>\<open>{"alerts":[{"labels":{"alertname":"NginxDown"}}]}\<close>
  arriving in a fresh world, the handler matches, runs the playbook exactly once and
  returns status 200 with body \<^verbatim>\<open>Recovery triggered\<close>, whatever the command exits with.
\<close>

theorem scenario_nginx_down:
  "alert_receiver sys (incoming (batch_of [alert_named ''NginxDown''])) =
     (Inr (''Recovery triggered'', 200),
      \<lparr>request_json = batch_of [alert_named ''NginxDown''],
       stdout = [''Webhook received!'', ''Alert received: NGINX is down! Attempting restart...''],
       executed = [''ansible-playbook ../ansible/playbook.yml'']\<rparr>)"
  by (simp add: alert_receiver_def incoming_def batch_of_def alert_named_def alertname_of_def
      py_print_def os_system_def playbook_cmd_def)

text \<open>
  C7. When the loop reaches an alert whose \<^verbatim>\<open>labels\<close> mapping has no \<^verbatim>\<open>alertname\<close> key,
  the alertname is the empty string and the alert matches no rule. The alert raises
  nothing and stops nothing: when only well-formed, non-matching alerts follow it, the
  handler answers \<^verbatim>\<open>No matching alert found\<close> and runs no command; when a matching alert
  follows, with only well-formed non-matching alerts in between, the handler answers
  \<^verbatim>\<open>Recovery triggered\<close> with one playbook run; and when a malformed entry comes first
  among those that follow, it is that entry's exception that leaves the handler. In each
  case the outcome is that of the loop carried on with the remaining alerts.
\<close>

theorem missing_alertname_skipped:
  assumes "request_json w = PyDict kvs"
    and "map_of kvs ''alerts'' = Some (PyList (pre @ a # rest))"
    and "\<forall>p\<in>set pre. wf_alert p \<and> \<not> matches p"
    and "a = PyDict entry"
    and "map_of entry ''labels'' = Some (PyDict labels)"
    and "map_of labels ''alertname'' = None"
  shows "alertname_of a = Inr (PyStr []) \<and> \<not> matches a
       \<and> ((\<forall>r\<in>set rest. wf_alert r \<and> \<not> matches r) \<longrightarrow>
            alert_receiver sys w = (Inr (''No matching alert found'', 200), received w))
       \<and> (\<forall>mid m post. rest = mid @ m # post \<and> (\<forall>r\<in>set mid. wf_alert r \<and> \<not> matches r) \<and> matches m \<longrightarrow>
            alert_receiver sys w = (Inr (''Recovery triggered'', 200), recovered w))
       \<and> (\<forall>mid b post. rest = mid @ b # post \<and> (\<forall>r\<in>set mid. wf_alert r \<and> \<not> matches r) \<and> \<not> wf_alert b \<longrightarrow>
            (\<exists>e. alertname_of b = Inl e \<and> alert_receiver sys w = (Inl e, received w)))
       \<and> scan_alerts sys (a # rest) (received w) = scan_alerts sys rest (received w)
       \<and> alert_receiver sys w = scan_alerts sys rest (received w)"
proof -
  have n: "alertname_of a = Inr (PyStr [])"
    using assms(4-6) by (simp add: alertname_of_def)
  then have m: "\<not> matches a"
    by (simp add: matches_def)
  from n have wfa: "wf_alert a"
    by (auto simp: wf_alert_iff)
  from n have s: "scan_alerts sys (a # rest) w' = scan_alerts sys rest w'" for w'
    by simp
  have run: "alert_receiver sys w = scan_alerts sys (pre @ a # rest) (received w)"
    using assms(1,2) by (simp add: alert_receiver_batch py_print_received)
  also have "\<dots> = scan_alerts sys (a # rest) (received w)"
    using assms(3) by (rule scan_alerts_skip)
  also have "\<dots> = scan_alerts sys rest (received w)"
    by (rule s)
  finally have cont: "alert_receiver sys w = scan_alerts sys rest (received w)" .
  have quiet: "alert_receiver sys w = (Inr (''No matching alert found'', 200), received w)"
    if "\<forall>r\<in>set rest. wf_alert r \<and> \<not> matches r"
  proof -
    from that assms(3) wfa m have "\<forall>x\<in>set (pre @ a # rest). wf_alert x \<and> \<not> matches x"
      by auto
    with assms(1,2) show ?thesis by (rule alert_receiver_no_match)
  qed
  have later: "alert_receiver sys w = (Inr (''Recovery triggered'', 200), recovered w)"
    if "rest = mid @ hit # post" and "\<forall>r\<in>set mid. wf_alert r \<and> \<not> matches r" and "matches hit"
    for mid hit post
  proof -
    from that(1) assms(2)
    have "map_of kvs ''alerts'' = Some (PyList ((pre @ a # mid) @ hit # post))" by simp
    moreover from that(2) assms(3) wfa m
    have "\<forall>x\<in>set (pre @ a # mid). wf_alert x \<and> \<not> matches x" by auto
    ultimately show ?thesis
      using assms(1) that(3) by (intro alert_receiver_first_match [where kvs = kvs]) 
  qed
  have broken: "\<exists>e. alertname_of b = Inl e \<and> alert_receiver sys w = (Inl e, received w)"
    if "rest = mid @ b # post" and "\<forall>r\<in>set mid. wf_alert r \<and> \<not> matches r" and "\<not> wf_alert b"
    for mid b post
  proof -
    from that(3) obtain e where e: "alertname_of b = Inl e"
      by (cases "alertname_of b") (auto simp: wf_alert_iff)
    have "scan_alerts sys rest (received w) = scan_alerts sys (b # post) (received w)"
      unfolding that(1) using that(2) by (rule scan_alerts_skip)
    also have "\<dots> = (Inl e, received w)"
      using e by simp
    finally show ?thesis using e cont by simp
  qed
  from n m quiet later broken s cont show ?thesis by blast
qed

theorem missing_alertname_skipped_witness:
  "map_of [(''labels'', PyDict [])] ''labels'' = Some (PyDict [])
   \<and> map_of [] ''alertname'' = (None :: json option)
   \<and> alertname_of (PyDict [(''labels'', PyDict [])]) = Inr (PyStr [])
   \<and> \<not> matches (PyDict [(''labels'', PyDict [])])
   \<and> alert_receiver (exit_with 0) (incoming (batch_of [PyDict [(''labels'', PyDict [])]])) =
       (Inr (''No matching alert found'', 200),
        received (incoming (batch_of [PyDict [(''labels'', PyDict [])]])))
   \<and> wf_alert (alert_named ''DiskFull'') \<and> \<not> matches (alert_named ''DiskFull'')
   \<and> matches (alert_named ''NginxDown'')
   \<and> alert_receiver (exit_with 0)
        (incoming (batch_of [alert_named ''DiskFull'', PyDict [(''labels'', PyDict [])],
           alert_named ''DiskFull'', alert_named ''NginxDown''])) =
       (Inr (''Recovery triggered'', 200),
        recovered (incoming (batch_of [alert_named ''DiskFull'', PyDict [(''labels'', PyDict [])],
           alert_named ''DiskFull'', alert_named ''NginxDown''])))
   \<and> \<not> wf_alert (PyInt 7)
   \<and> alert_receiver (exit_with 0)
        (incoming (batch_of [PyDict [(''labels'', PyDict [])], PyInt 7, alert_named ''NginxDown''])) =
       (Inl TypeError,
        received (incoming (batch_of [PyDict [(''labels'', PyDict [])], PyInt 7, alert_named ''NginxDown''])))"
proof -
  let ?a = "PyDict [(''labels'', PyDict [])]"
  let ?d = "alert_named ''DiskFull''"
  let ?n = "alert_named ''NginxDown''"
  have l1: "map_of [(''labels'', PyDict [])] ''labels'' = Some (PyDict [])"
    by simp
  have l2: "map_of [] ''alertname'' = (None :: json option)"
    by simp
  have d: "wf_alert ?d \<and> \<not> matches ?d"
    by (simp add: alert_named_def matches_def alertname_of_def)
  have hit: "matches ?n"
    by (simp add: alert_named_def matches_def alertname_of_def)
  have bad: "\<not> wf_alert (PyInt 7)"
    by simp
  have t: "alertname_of (PyInt 7) = Inl TypeError"
    by (simp add: alertname_of_def)
  have m: "map_of [(''alerts'', PyList xs)] ''alerts'' = Some (PyList xs)" for xs
    by simp
  have r: "request_json (incoming (batch_of xs)) = PyDict [(''alerts'', PyList xs)]" for xs
    by (simp add: incoming_def batch_of_def)

  have r1: "request_json (incoming (batch_of [?a])) = PyDict [(''alerts'', PyList ([] @ ?a # []))]"
    by (simp add: r)
  have e1: "\<forall>p\<in>set []. wf_alert p \<and> \<not> matches p"
    by simp
  note one = missing_alertname_skipped [OF r1 m e1 refl l1 l2, of "exit_with 0"]
  from one have c0: "alertname_of ?a = Inr (PyStr []) \<and> \<not> matches ?a"
    by blast
  from one have "(\<forall>r\<in>set []. wf_alert r \<and> \<not> matches r) \<longrightarrow>
      alert_receiver (exit_with 0) (incoming (batch_of [?a])) =
        (Inr (''No matching alert found'', 200), received (incoming (batch_of [?a])))"
    by blast
  then have c1: "alert_receiver (exit_with 0) (incoming (batch_of [?a])) =
      (Inr (''No matching alert found'', 200), received (incoming (batch_of [?a])))"
    by simp

  have r2: "request_json (incoming (batch_of [?d, ?a, ?d, ?n])) =
      PyDict [(''alerts'', PyList ([?d] @ ?a # [?d, ?n]))]"
    by (simp add: r)
  have e2: "\<forall>p\<in>set [?d]. wf_alert p \<and> \<not> matches p"
    using d by simp
  note two = missing_alertname_skipped [OF r2 m e2 refl l1 l2, of "exit_with 0"]
  from two have "\<forall>mid m post. [?d, ?n] = mid @ m # post \<and>
        (\<forall>r\<in>set mid. wf_alert r \<and> \<not> matches r) \<and> matches m \<longrightarrow>
      alert_receiver (exit_with 0) (incoming (batch_of [?d, ?a, ?d, ?n])) =
        (Inr (''Recovery triggered'', 200), recovered (incoming (batch_of [?d, ?a, ?d, ?n])))"
    by blast
  from this [rule_format, of "[?d]" ?n "[]"] d hit
  have c2: "alert_receiver (exit_with 0) (incoming (batch_of [?d, ?a, ?d, ?n])) =
      (Inr (''Recovery triggered'', 200), recovered (incoming (batch_of [?d, ?a, ?d, ?n])))"
    by simp

  have r3: "request_json (incoming (batch_of [?a, PyInt 7, ?n])) =
      PyDict [(''alerts'', PyList ([] @ ?a # [PyInt 7, ?n]))]"
    by (simp add: r)
  note three = missing_alertname_skipped [OF r3 m e1 refl l1 l2, of "exit_with 0"]
  from three have "\<forall>mid b post. [PyInt 7, ?n] = mid @ b # post \<and>
        (\<forall>r\<in>set mid. wf_alert r \<and> \<not> matches r) \<and> \<not> wf_alert b \<longrightarrow>
      (\<exists>e. alertname_of b = Inl e \<and>
         alert_receiver (exit_with 0) (incoming (batch_of [?a, PyInt 7, ?n])) =
           (Inl e, received (incoming (batch_of [?a, PyInt 7, ?n]))))"
    by blast
  from this [rule_format, of "[]" "PyInt 7" "[?n]"] bad
  have "\<exists>e. alertname_of (PyInt 7) = Inl e \<and>
      alert_receiver (exit_with 0) (incoming (batch_of [?a, PyInt 7, ?n])) =
        (Inl e, received (incoming (batch_of [?a, PyInt 7, ?n])))"
    by simp
  with t have c3: "alert_receiver (exit_with 0) (incoming (batch_of [?a, PyInt 7, ?n])) =
      (Inl TypeError, received (incoming (batch_of [?a, PyInt 7, ?n])))"
    by auto
  from l1 l2 c0 c1 d hit c2 bad c3 show ?thesis by blast
qed

text \<open>
  C8. Serving the same matching batch twice runs the playbook twice: the second call
  finds the batch as the first one did, returns \<^verbatim>\<open>Recovery triggered\<close> again, and the log
  of commands has grown by two playbook runs. Nothing is remembered between calls.
\<close>

theorem repeated_batch_runs_twice:
  assumes "request_json w = PyDict kvs"
    and "map_of kvs ''alerts'' = Some (PyList (pre @ a # post))"
    and "\<forall>p\<in>set pre. wf_alert p \<and> \<not> matches p"
    and "matches a"
  shows "fst (alert_receiver sys w) = Inr (''Recovery triggered'', 200)
       \<and> executed (snd (alert_receiver sys w)) = executed w @ [playbook_cmd]
       \<and> request_json (snd (alert_receiver sys w)) = PyDict kvs
       \<and> fst (alert_receiver sys' (snd (alert_receiver sys w))) = Inr (''Recovery triggered'', 200)
       \<and> executed (snd (alert_receiver sys' (snd (alert_receiver sys w)))) =
           executed w @ [playbook_cmd, playbook_cmd]"
proof -
  have first: "alert_receiver sys w = (Inr (''Recovery triggered'', 200), recovered w)"
    using assms by (rule alert_receiver_first_match)
  have again: "request_json (recovered w) = PyDict kvs"
    using assms(1) by (simp add: recovered_def)
  have second: "alert_receiver sys' (recovered w) = (Inr (''Recovery triggered'', 200), recovered (recovered w))"
    using again assms(2-4) by (rule alert_receiver_first_match)
  show ?thesis
    by (simp add: first second again) (simp add: recovered_def)
qed

theorem repeated_batch_runs_twice_witness:
  "request_json (incoming (batch_of [alert_named ''NginxDown''])) = PyDict [(''alerts'', PyList ([] @ alert_named ''NginxDown'' # []))]
   \<and> matches (alert_named ''NginxDown'')
   \<and> fst (alert_receiver (exit_with 0) (incoming (batch_of [alert_named ''NginxDown'']))) = Inr (''Recovery triggered'', 200)
   \<and> fst (alert_receiver (exit_with 0)
        (snd (alert_receiver (exit_with 0) (incoming (batch_of [alert_named ''NginxDown'']))))) =
       Inr (''Recovery triggered'', 200)
   \<and> executed (snd (alert_receiver (exit_with 0)
        (snd (alert_receiver (exit_with 0) (incoming (batch_of [alert_named ''NginxDown'']))))))  =
       [playbook_cmd, playbook_cmd]"
proof -
  let ?w = "incoming (batch_of [alert_named ''NginxDown''])"
  have h1: "request_json ?w = PyDict [(''alerts'', PyList ([] @ alert_named ''NginxDown'' # []))]"
    by (simp add: incoming_def batch_of_def)
  have h2: "map_of [(''alerts'', PyList ([] @ alert_named ''NginxDown'' # []))] ''alerts'' =
      Some (PyList ([] @ alert_named ''NginxDown'' # []))"
    by simp
  have h3: "\<forall>p\<in>set []. wf_alert p \<and> \<not> matches p"
    by simp
  have h4: "matches (alert_named ''NginxDown'')"
    by (simp add: alert_named_def matches_def alertname_of_def)
  have e: "executed ?w = []"
    by (simp add: incoming_def)
  note main = repeated_batch_runs_twice [OF h1 h2 h3 h4, of "exit_with 0" "exit_with 0"]
  from main have c1: "fst (alert_receiver (exit_with 0) ?w) = Inr (''Recovery triggered'', 200)"
    by blast
  from main have c2: "fst (alert_receiver (exit_with 0) (snd (alert_receiver (exit_with 0) ?w))) =
      Inr (''Recovery triggered'', 200)"
    by blast
  from main have "executed (snd (alert_receiver (exit_with 0) (snd (alert_receiver (exit_with 0) ?w)))) =
      executed ?w @ [playbook_cmd, playbook_cmd]"
    by blast
  with e have c3: "executed (snd (alert_receiver (exit_with 0) (snd (alert_receiver (exit_with 0) ?w)))) =
      [playbook_cmd, playbook_cmd]"
    by simp
  from h1 h4 c1 c2 c3 show ?thesis by blast
qed

text \<open>
  C9, as stated: an entry without \<^verbatim>\<open>"labels"\<close> before the first match makes the handler
  raise \<^verbatim>\<open>KeyError\<close> or \<^verbatim>\<open>TypeError\<close>. In the batch
  \<^verbatim>\<open>{"alerts":[{"labels":1},{},{"labels":{"alertname":"NginxDown"}}]}\<close> the second entry
  has no \<^verbatim>\<open>"labels"\<close> and stands before the first match, at position 2, but the first
  entry already stops the loop with \<^verbatim>\<open>AttributeError\<close>.
\<close>

theorem malformed_labels_counterexample:
  "lacks_labels (PyDict [])
   \<and> first_match [PyDict [(''labels'', PyInt 1)], PyDict [], alert_named ''NginxDown''] = 2
   \<and> fst (alert_receiver (exit_with 0)
        (incoming (batch_of [PyDict [(''labels'', PyInt 1)], PyDict [], alert_named ''NginxDown'']))) =
       Inl AttributeError
   \<and> fst (alert_receiver (exit_with 0)
        (incoming (batch_of [PyDict [(''labels'', PyInt 1)], PyDict [], alert_named ''NginxDown'']))) \<noteq>
       Inl KeyError
   \<and> fst (alert_receiver (exit_with 0)
        (incoming (batch_of [PyDict [(''labels'', PyInt 1)], PyDict [], alert_named ''NginxDown'']))) \<noteq>
       Inl TypeError"
  by (simp add: alert_receiver_def incoming_def batch_of_def alert_named_def alertname_of_def
      matches_def first_match_def py_print_def)

text \<open>
  C9, amended. When an entry that is not a mapping, or is a mapping without \<^verbatim>\<open>"labels"\<close>,
  stands in the alerts list with no matching alert before it, the handler raises an
  exception instead of returning a response, and no command is run. When all entries
  before it are well-formed, the exception is \<^verbatim>\<open>KeyError\<close> for a mapping without
  \<^verbatim>\<open>"labels"\<close> and \<^verbatim>\<open>TypeError\<close> for an entry that is not a mapping; otherwise it is the
  exception of an earlier malformed entry, which can also be \<^verbatim>\<open>AttributeError\<close>.
\<close>

theorem malformed_entry_raises:
  assumes "request_json w = PyDict kvs"
    and "map_of kvs ''alerts'' = Some (PyList (pre @ bad # post))"
    and "\<forall>p\<in>set pre. \<not> matches p"
    and "lacks_labels bad"
  shows "(\<exists>e. alert_receiver sys w = (Inl e, received w))
       \<and> executed (snd (alert_receiver sys w)) = executed w
       \<and> ((\<forall>p\<in>set pre. wf_alert p) \<longrightarrow>
            alert_receiver sys w =
              (Inl (case bad of PyDict entry \<Rightarrow> KeyError | _ \<Rightarrow> TypeError), received w))"
proof -
  let ?e0 = "case bad of PyDict entry \<Rightarrow> KeyError | _ \<Rightarrow> TypeError"
  have bad: "alertname_of bad = Inl ?e0"
    using assms(4) by (rule lacks_labels_raises)
  have run: "alert_receiver sys w = scan_alerts sys (pre @ bad # post) (received w)"
    using assms(1,2) by (simp add: alert_receiver_batch py_print_received)
  from scan_alerts_raises [OF assms(3) bad] run
  have some: "\<exists>e. alert_receiver sys w = (Inl e, received w)"
    by simp
  then have quiet: "executed (snd (alert_receiver sys w)) = executed w"
    by (auto simp: received_def)
  have kind: "alert_receiver sys w = (Inl ?e0, received w)" if wf: "\<forall>p\<in>set pre. wf_alert p"
  proof -
    from wf assms(3) have "\<forall>p\<in>set pre. wf_alert p \<and> \<not> matches p" by blast
    then have "scan_alerts sys (pre @ bad # post) (received w) = scan_alerts sys (bad # post) (received w)"
      by (rule scan_alerts_skip)
    with run bad show ?thesis by simp
  qed
  from some quiet kind show ?thesis by blast
qed

theorem malformed_entry_raises_witness:
  "request_json (incoming (batch_of [alert_named ''DiskFull'', PyDict [(''status'', PyStr ''firing'')], alert_named ''NginxDown''])) =
     PyDict [(''alerts'', PyList ([alert_named ''DiskFull''] @ PyDict [(''status'', PyStr ''firing'')] # [alert_named ''NginxDown'']))]
   \<and> \<not> matches (alert_named ''DiskFull'') \<and> wf_alert (alert_named ''DiskFull'')
   \<and> lacks_labels (PyDict [(''status'', PyStr ''firing'')])
   \<and> alert_receiver (exit_with 0)
        (incoming (batch_of [alert_named ''DiskFull'', PyDict [(''status'', PyStr ''firing'')], alert_named ''NginxDown''])) =
       (Inl KeyError,
        received (incoming (batch_of [alert_named ''DiskFull'', PyDict [(''status'', PyStr ''firing'')], alert_named ''NginxDown''])))
   \<and> executed (snd (alert_receiver (exit_with 0)
        (incoming (batch_of [alert_named ''DiskFull'', PyDict [(''status'', PyStr ''firing'')], alert_named ''NginxDown''])))) = []"
proof -
  let ?bad = "PyDict [(''status'', PyStr ''firing'')]"
  let ?w = "incoming (batch_of [alert_named ''DiskFull'', ?bad, alert_named ''NginxDown''])"
  have h1: "request_json ?w =
      PyDict [(''alerts'', PyList ([alert_named ''DiskFull''] @ ?bad # [alert_named ''NginxDown'']))]"
    by (simp add: incoming_def batch_of_def)
  have h2: "map_of [(''alerts'', PyList ([alert_named ''DiskFull''] @ ?bad # [alert_named ''NginxDown'']))] ''alerts'' =
      Some (PyList ([alert_named ''DiskFull''] @ ?bad # [alert_named ''NginxDown'']))"
    by simp
  have h3: "\<forall>p\<in>set [alert_named ''DiskFull'']. \<not> matches p"
    by (simp add: alert_named_def matches_def alertname_of_def)
  have h4: "lacks_labels ?bad"
    by simp
  have wf: "\<forall>p\<in>set [alert_named ''DiskFull'']. wf_alert p"
    by (simp add: alert_named_def)
  have e: "executed ?w = []"
    by (simp add: incoming_def)
  note main = malformed_entry_raises [OF h1 h2 h3 h4, of "exit_with 0"]
  from main wf have c1: "alert_receiver (exit_with 0) ?w = (Inl KeyError, received ?w)"
    by simp
  from main e have c2: "executed (snd (alert_receiver (exit_with 0) ?w)) = []"
    by simp
  from h3 wf have h': "\<not> matches (alert_named ''DiskFull'') \<and> wf_alert (alert_named ''DiskFull'')"
    by simp
  from h1 h' h4 c1 c2 show ?thesis by blast
qed

text \<open>
  C10. The handler only reads the batch: the parsed body held by the request is the same
  after the call as before it, on every path.
\<close>

theorem batch_unchanged:
  "request_json (snd (alert_receiver sys w)) = request_json w"
  by (rule alert_receiver_request)

end
